theory Spec2Isabelle
  imports Main "HOL-Library.Word"
begin

section \<open>Error identifiers and the API error value\<close>

text \<open>
  \<^verbatim>\<open>type ErrorID string\<close>: an error identifier is a Go string, here a byte string.
\<close>

type_synonym ErrorID = string

text \<open>
  \<^verbatim>\<open>APIError{ID ErrorID; Message *string; Detail *string}\<close>. The two pointer fields
  are options: \<open>None\<close> is the nil pointer.
\<close>

record APIError =
  ID :: ErrorID
  Message :: "string option"
  Detail :: "string option"

definition ErrHTTPUnauthorized :: ErrorID where "ErrHTTPUnauthorized = ''http_unauthorized''"
definition ErrHTTPMaxRequests :: ErrorID where "ErrHTTPMaxRequests = ''http_max_requests''"
definition ErrJSONSyntax :: ErrorID where "ErrJSONSyntax = ''json_syntax''"
definition ErrImageMissing :: ErrorID where "ErrImageMissing = ''image_missing''"
definition ErrImageDownload :: ErrorID where "ErrImageDownload = ''image_download_error''"
definition ErrImageDecode :: ErrorID where "ErrImageDecode = ''image_decode_error''"
definition ErrImageNoContent :: ErrorID where "ErrImageNoContent = ''image_no_content''"
definition ErrImageNotSupported :: ErrorID where "ErrImageNotSupported = ''image_not_supported''"
definition ErrImageMaxSize :: ErrorID where "ErrImageMaxSize = ''image_max_size''"
definition ErrStrokesMissing :: ErrorID where "ErrStrokesMissing = ''strokes_missing''"
definition ErrStrokesSyntaxError :: ErrorID where "ErrStrokesSyntaxError = ''strokes_syntax_error''"
definition ErrStrokesNoContent :: ErrorID where "ErrStrokesNoContent = ''strokes_no_content''"
definition ErrOptsBadCallback :: ErrorID where "ErrOptsBadCallback = ''opts_bad_callback''"
definition ErrOptsUnknownOCR :: ErrorID where "ErrOptsUnknownOCR = ''opts_unknown_ocr''"
definition ErrOptsUnknownFormat :: ErrorID where "ErrOptsUnknownFormat = ''opts_unknown_format''"
definition ErrOptsNumberRequired :: ErrorID where "ErrOptsNumberRequired = ''opts_number_required''"
definition ErrOptsValueOutOfRange :: ErrorID where "ErrOptsValueOutOfRange = ''opts_value_out_of_range''"
definition ErrPDFEncrypted :: ErrorID where "ErrPDFEncrypted = ''pdf_encrypted''"
definition ErrPDFUnknownID :: ErrorID where "ErrPDFUnknownID = ''pdf_unknown_id''"
definition ErrPDFMissing :: ErrorID where "ErrPDFMissing = ''pdf_missing''"
definition ErrPDFPageLimitExceeded :: ErrorID where "ErrPDFPageLimitExceeded = ''pdf_page_limit_exceeded''"
definition ErrMathConfidence :: ErrorID where "ErrMathConfidence = ''math_confidence''"
definition ErrMathSyntax :: ErrorID where "ErrMathSyntax = ''math_syntax''"
definition ErrBatchUnknownID :: ErrorID where "ErrBatchUnknownID = ''batch_unknown_id''"
definition ErrSysException :: ErrorID where "ErrSysException = ''sys_exception''"
definition ErrSysRequestTooLarge :: ErrorID where "ErrSysRequestTooLarge = ''sys_request_too_large''"

text \<open>\<^verbatim>\<open>func (e ErrorID) String() string\<close> is the conversion to the underlying string.\<close>

definition String :: "ErrorID \<Rightarrow> string" where
  "String e = e"

text \<open>
  \<^verbatim>\<open>func (e ErrorID) HTTPStatusCode() int\<close>: a switch with two cases and a default.
\<close>

definition HTTPStatusCode :: "ErrorID \<Rightarrow> int" where
  "HTTPStatusCode e =
     (if e = ErrHTTPUnauthorized then 401
      else if e = ErrHTTPMaxRequests then 429
      else 200)"

text \<open>
  \<^verbatim>\<open>func isErrorID(in ErrorID) bool\<close>: one switch case listing the 26 constants,
  in the order of the source.
\<close>

definition knownErrorIDs :: "ErrorID list" where
  "knownErrorIDs =
     [ErrHTTPUnauthorized, ErrHTTPMaxRequests, ErrJSONSyntax, ErrImageMissing,
      ErrImageDownload, ErrImageDecode, ErrImageNoContent, ErrImageNotSupported,
      ErrImageMaxSize, ErrStrokesMissing, ErrStrokesSyntaxError, ErrStrokesNoContent,
      ErrOptsBadCallback, ErrOptsUnknownOCR, ErrOptsUnknownFormat, ErrOptsNumberRequired,
      ErrOptsValueOutOfRange, ErrPDFEncrypted, ErrPDFUnknownID, ErrPDFMissing,
      ErrPDFPageLimitExceeded, ErrMathConfidence, ErrMathSyntax, ErrBatchUnknownID,
      ErrSysException, ErrSysRequestTooLarge]"

definition isErrorID :: "ErrorID \<Rightarrow> bool" where
  "isErrorID i = List.member knownErrorIDs i"

text \<open>
  \<^verbatim>\<open>func (e *APIError) Error() string\<close>. The receiver is taken non-nil (\<^verbatim>\<open>call\<close>
  only ever returns the address of a local). \<^verbatim>\<open>fmt.Sprintf(`%s: %s`, ...)\<close> on two
  strings is their concatenation around \<^verbatim>\<open>": "\<close>.
\<close>

definition Error :: "APIError \<Rightarrow> string" where
  "Error e =
     (case Message e of
        None \<Rightarrow> String (ID e)
      | Some m \<Rightarrow> String (ID e) @ '': '' @ m)"

section \<open>Temporary app tokens\<close>

text \<open>
  \<^verbatim>\<open>AppTokenRequest{IncludeStrokesSessionID bool; Expires int64}\<close>. \<^verbatim>\<open>Expires\<close> is a
  64-bit word read as two's complement: the comparisons of the source are the signed
  ones (\<open><s\<close>).
\<close>

type_synonym int64 = "64 word"

record AppTokenRequest =
  IncludeStrokesSessionID :: bool
  Expires :: int64

definition NewAppTokenRequest :: AppTokenRequest where
  "NewAppTokenRequest = \<lparr>IncludeStrokesSessionID = False, Expires = 300\<rparr>"

text \<open>
  The two builder methods mutate the receiver and return it; the model returns the
  updated request.
\<close>

definition WithStrokesSession :: "AppTokenRequest \<Rightarrow> AppTokenRequest" where
  "WithStrokesSession r =
     (let r1 = r\<lparr>IncludeStrokesSessionID := True\<rparr>
      in if 300 <s Expires r1 then r1\<lparr>Expires := 300\<rparr> else r1)"

definition WithExpiration :: "AppTokenRequest \<Rightarrow> int64 \<Rightarrow> AppTokenRequest" where
  "WithExpiration r seconds =
     (let seconds1 =
        (if IncludeStrokesSessionID r
         then (if seconds <s 30 then 30 else if 300 <s seconds then 300 else seconds)
         else (if seconds <s 30 then 30 else if 43200 <s seconds then 43200 else seconds))
      in r\<lparr>Expires := seconds1\<rparr>)"

text \<open>
  A finite sequence of builder calls, applied left to right to a request.
\<close>

datatype builder_call = CallWithStrokesSession | CallWithExpiration int64

fun apply_builder :: "AppTokenRequest \<Rightarrow> builder_call \<Rightarrow> AppTokenRequest" where
  "apply_builder r CallWithStrokesSession = WithStrokesSession r"
| "apply_builder r (CallWithExpiration seconds) = WithExpiration r seconds"

definition apply_builders :: "AppTokenRequest \<Rightarrow> builder_call list \<Rightarrow> AppTokenRequest" where
  "apply_builders r cs = foldl apply_builder r cs"

text \<open>The clamp of a signed value into an interval, as the specification words it.\<close>

definition clamp :: "int \<Rightarrow> int \<Rightarrow> int \<Rightarrow> int" where
  "clamp lo hi x = max lo (min hi x)"

section \<open>JSON values and the decoder of \<^verbatim>\<open>encoding/json\<close>\<close>

text \<open>
  A JSON value as the decoder scans it. A number keeps its literal (the decoder converts
  it only when it stores it); an object keeps its members in order, duplicates included.
\<close>

datatype json =
  JNull
| JBool bool
| JNum string
| JStr string
| JArr "json list"
| JObj "(string \<times> json) list"

text \<open>
  A stream handed to \<^verbatim>\<open>json.NewDecoder\<close> is represented by the first JSON value that
  \<^verbatim>\<open>Decode\<close> scans from it: \<open>None\<close> when the bytes do not begin with a complete JSON
  value (an empty body gives \<^verbatim>\<open>io.EOF\<close>, malformed bytes a \<^verbatim>\<open>*json.SyntaxError\<close>).
\<close>

type_synonym reader = "json option"

datatype json_error =
  SyntaxOrEOF
| UnmarshalTypeError string string

fun json_kind :: "json \<Rightarrow> string" where
  "json_kind JNull = ''null''"
| "json_kind (JBool b) = ''bool''"
| "json_kind (JNum n) = ''number''"
| "json_kind (JStr s) = ''string''"
| "json_kind (JArr xs) = ''array''"
| "json_kind (JObj kvs) = ''object''"

text \<open>
  \<^verbatim>\<open>d.saveError\<close>: the decoder goes on after a value of the wrong type and reports the
  earliest such error at the end.
\<close>

definition saveError :: "json_error option \<Rightarrow> json_error \<Rightarrow> json_error option" where
  "saveError saved e = (case saved of None \<Rightarrow> Some e | Some e0 \<Rightarrow> Some e0)"

text \<open>
  An object member is matched to a struct field by its exact name, else by the folded
  name. \<^verbatim>\<open>foldName\<close> upper-cases ASCII letters; the only other runes whose simple case
  folding reaches an ASCII letter are U+017F (bytes C5 BF, folds to S) and U+212A
  (bytes E2 84 AA, folds to K). All field names below are ASCII.
\<close>

definition toUpperASCII :: "char \<Rightarrow> char" where
  "toUpperASCII c =
     (if 97 \<le> (of_char c :: nat) \<and> (of_char c :: nat) \<le> 122
      then char_of ((of_char c :: nat) - 32) else c)"

fun foldName :: "string \<Rightarrow> string" where
  "foldName [] = []"
| "foldName [a] = [toUpperASCII a]"
| "foldName [a, b] =
     (if a = CHR 0xC5 \<and> b = CHR 0xBF then [CHR ''S'']
      else toUpperASCII a # foldName [b])"
| "foldName (a # b # c # cs) =
     (if a = CHR 0xC5 \<and> b = CHR 0xBF then CHR ''S'' # foldName (c # cs)
      else if a = CHR 0xE2 \<and> b = CHR 0x84 \<and> c = CHR 0xAA then CHR ''K'' # foldName cs
      else toUpperASCII a # foldName (b # c # cs))"

definition lookupField :: "string list \<Rightarrow> string \<Rightarrow> string option" where
  "lookupField names key =
     (if List.member names key then Some key
      else find (\<lambda>f. foldName f = foldName key) names)"

text \<open>
  Storing a JSON value into a field of kind string: a string is stored, \<^verbatim>\<open>null\<close> has no
  effect, anything else is an \<^verbatim>\<open>UnmarshalTypeError\<close> and the field keeps its value.
\<close>

definition storeString :: "string \<Rightarrow> json \<Rightarrow> string \<Rightarrow> string \<times> json_error option" where
  "storeString field j cur =
     (case j of
        JStr s \<Rightarrow> (s, None)
      | JNull \<Rightarrow> (cur, None)
      | _ \<Rightarrow> (cur, Some (UnmarshalTypeError (json_kind j) field)))"

text \<open>
  Storing into a \<^verbatim>\<open>*string\<close>: \<^verbatim>\<open>null\<close> sets the pointer to nil; any other value first
  allocates the pointer when it is nil (\<^verbatim>\<open>indirect\<close>) and then stores as above.
\<close>

definition storeStringPtr ::
  "string \<Rightarrow> json \<Rightarrow> string option \<Rightarrow> string option \<times> json_error option" where
  "storeStringPtr field j cur =
     (case j of
        JNull \<Rightarrow> (None, None)
      | _ \<Rightarrow>
         (case storeString field j (case cur of None \<Rightarrow> [] | Some s \<Rightarrow> s) of
            (s, e) \<Rightarrow> (Some s, e)))"

text \<open>
  What the generic code needs of a Go type it decodes into: its zero value and how a
  JSON value is stored into a value of the type (the new value, and the error the
  decoder saved, if any).
\<close>

record 'a go_type =
  zeroValue :: 'a
  unmarshal :: "json \<Rightarrow> 'a \<Rightarrow> 'a \<times> json_error option"

text \<open>\<^verbatim>\<open>json.NewDecoder(r).Decode(&v)\<close>.\<close>

definition Decode :: "'a go_type \<Rightarrow> reader \<Rightarrow> 'a \<Rightarrow> 'a \<times> json_error option" where
  "Decode T r v =
     (case r of
        None \<Rightarrow> (v, Some SyntaxOrEOF)
      | Some j \<Rightarrow> unmarshal T j v)"

text \<open>
  A pointer type \<^verbatim>\<open>*T\<close>: nil is \<open>None\<close>. \<^verbatim>\<open>null\<close> sets the pointer to nil, any other
  value allocates a zero \<^verbatim>\<open>T\<close> when the pointer is nil and decodes into the pointee.
\<close>

definition unmarshalPointer ::
  "'a go_type \<Rightarrow> json \<Rightarrow> 'a option \<Rightarrow> 'a option \<times> json_error option" where
  "unmarshalPointer T j p =
     (case j of
        JNull \<Rightarrow> (None, None)
      | _ \<Rightarrow>
         (case unmarshal T j (case p of None \<Rightarrow> zeroValue T | Some v \<Rightarrow> v) of
            (v, e) \<Rightarrow> (Some v, e)))"

definition pointerTo :: "'a go_type \<Rightarrow> 'a option go_type" where
  "pointerTo T = \<lparr>zeroValue = None, unmarshal = unmarshalPointer T\<rparr>"

text \<open>
  Decoding into \<^verbatim>\<open>APIError\<close>, whose fields carry the tags \<^verbatim>\<open>json:"id"\<close>,
  \<^verbatim>\<open>json:"message,omitempty"\<close> and \<^verbatim>\<open>json:"detail,omitempty"\<close>. Members of the object
  are stored in order; a member that matches no field is skipped.
\<close>

definition storeAPIErrorMember ::
  "APIError \<times> json_error option \<Rightarrow> string \<times> json \<Rightarrow> APIError \<times> json_error option" where
  "storeAPIErrorMember acc kv =
     (case acc of (v, saved) \<Rightarrow>
      (case kv of (key, j) \<Rightarrow>
       (case lookupField [''id'', ''message'', ''detail''] key of
          None \<Rightarrow> (v, saved)
        | Some f \<Rightarrow>
           if f = ''id'' then
             (case storeString f j (ID v) of
                (s, None) \<Rightarrow> (v\<lparr>ID := s\<rparr>, saved)
              | (s, Some e) \<Rightarrow> (v\<lparr>ID := s\<rparr>, saveError saved e))
           else if f = ''message'' then
             (case storeStringPtr f j (Message v) of
                (s, None) \<Rightarrow> (v\<lparr>Message := s\<rparr>, saved)
              | (s, Some e) \<Rightarrow> (v\<lparr>Message := s\<rparr>, saveError saved e))
           else
             (case storeStringPtr f j (Detail v) of
                (s, None) \<Rightarrow> (v\<lparr>Detail := s\<rparr>, saved)
              | (s, Some e) \<Rightarrow> (v\<lparr>Detail := s\<rparr>, saveError saved e)))))"

definition unmarshalAPIError :: "json \<Rightarrow> APIError \<Rightarrow> APIError \<times> json_error option" where
  "unmarshalAPIError j v =
     (case j of
        JNull \<Rightarrow> (v, None)
      | JObj kvs \<Rightarrow> foldl storeAPIErrorMember (v, None) kvs
      | _ \<Rightarrow> (v, Some (UnmarshalTypeError (json_kind j) [])))"

definition APIError_type :: "APIError go_type" where
  "APIError_type =
     \<lparr>zeroValue = \<lparr>ID = [], Message = None, Detail = None\<rparr>,
      unmarshal = unmarshalAPIError\<rparr>"

text \<open>
  \<^verbatim>\<open>ErrorResponse{Error APIError `json:"error"`}\<close>, the envelope type the sources
  declare beside \<^verbatim>\<open>APIError\<close>; no function of the sources decodes into it. A struct
  field takes an object member by member, ignores \<^verbatim>\<open>null\<close> and refuses anything else,
  as the top-level struct does.
\<close>

record ErrorResponse =
  ErrorResponse_Error :: APIError

definition storeErrorResponseMember ::
  "ErrorResponse \<times> json_error option \<Rightarrow> string \<times> json
     \<Rightarrow> ErrorResponse \<times> json_error option" where
  "storeErrorResponseMember acc kv =
     (case acc of (v, saved) \<Rightarrow>
      (case kv of (key, j) \<Rightarrow>
       (case lookupField [''error''] key of
          None \<Rightarrow> (v, saved)
        | Some f \<Rightarrow>
           (case unmarshalAPIError j (ErrorResponse_Error v) of
              (a, None) \<Rightarrow> (v\<lparr>ErrorResponse_Error := a\<rparr>, saved)
            | (a, Some e) \<Rightarrow> (v\<lparr>ErrorResponse_Error := a\<rparr>, saveError saved e)))))"

definition unmarshalErrorResponse ::
  "json \<Rightarrow> ErrorResponse \<Rightarrow> ErrorResponse \<times> json_error option" where
  "unmarshalErrorResponse j v =
     (case j of
        JNull \<Rightarrow> (v, None)
      | JObj kvs \<Rightarrow> foldl storeErrorResponseMember (v, None) kvs
      | _ \<Rightarrow> (v, Some (UnmarshalTypeError (json_kind j) [])))"

definition ErrorResponse_type :: "ErrorResponse go_type" where
  "ErrorResponse_type =
     \<lparr>zeroValue = \<lparr>ErrorResponse_Error = zeroValue APIError_type\<rparr>,
      unmarshal = unmarshalErrorResponse\<rparr>"

text \<open>
  \<^verbatim>\<open>strconv.ParseInt(s, 10, 64)\<close>, which stores a JSON number into an \<^verbatim>\<open>int64\<close>: an
  optional sign and decimal digits, within the range of the type.
\<close>

definition isDigit :: "char \<Rightarrow> bool" where
  "isDigit c = (48 \<le> (of_char c :: nat) \<and> (of_char c :: nat) \<le> 57)"

definition digitsValue :: "string \<Rightarrow> nat" where
  "digitsValue ds = foldl (\<lambda>n c. 10 * n + ((of_char c :: nat) - 48)) 0 ds"

definition ParseInt64 :: "string \<Rightarrow> int64 option" where
  "ParseInt64 s =
     (let neg = (case s of [] \<Rightarrow> False | c # rest \<Rightarrow> c = CHR ''-'');
          ds = (case s of [] \<Rightarrow> []
                | c # rest \<Rightarrow> if c = CHR ''-'' \<or> c = CHR ''+'' then rest else s);
          v = (if neg then - int (digitsValue ds) else int (digitsValue ds))
      in if ds = [] then None
         else if list_all isDigit ds \<and> - (2 ^ 63) \<le> v \<and> v < 2 ^ 63 then Some (word_of_int v)
         else None)"

definition storeInt64 :: "string \<Rightarrow> json \<Rightarrow> int64 \<Rightarrow> int64 \<times> json_error option" where
  "storeInt64 field j cur =
     (case j of
        JNum lit \<Rightarrow>
          (case ParseInt64 lit of
             Some w \<Rightarrow> (w, None)
           | None \<Rightarrow> (cur, Some (UnmarshalTypeError (''number '' @ lit) field)))
      | JNull \<Rightarrow> (cur, None)
      | _ \<Rightarrow> (cur, Some (UnmarshalTypeError (json_kind j) field)))"

text \<open>
  \<^verbatim>\<open>AppTokenResponse\<close>, the response type of \<^verbatim>\<open>appTokensEndpoint\<close>, with the tags
  \<^verbatim>\<open>json:"app_token"\<close>, \<^verbatim>\<open>json:"strokes_session_id,omitempty"\<close> and
  \<^verbatim>\<open>json:"app_token_expires_at"\<close>. The decoder never sees the unexported \<^verbatim>\<open>headers\<close>.
\<close>

record AppTokenResponse =
  AppToken :: string
  StrokesSessionID :: string
  AppTokenExpiresAt :: int64
  headers :: "string \<rightharpoonup> string list"

definition storeAppTokenResponseMember ::
  "AppTokenResponse \<times> json_error option \<Rightarrow> string \<times> json
     \<Rightarrow> AppTokenResponse \<times> json_error option" where
  "storeAppTokenResponseMember acc kv =
     (case acc of (v, saved) \<Rightarrow>
      (case kv of (key, j) \<Rightarrow>
       (case lookupField [''app_token'', ''strokes_session_id'', ''app_token_expires_at''] key of
          None \<Rightarrow> (v, saved)
        | Some f \<Rightarrow>
           if f = ''app_token'' then
             (case storeString f j (AppToken v) of
                (s, None) \<Rightarrow> (v\<lparr>AppToken := s\<rparr>, saved)
              | (s, Some e) \<Rightarrow> (v\<lparr>AppToken := s\<rparr>, saveError saved e))
           else if f = ''strokes_session_id'' then
             (case storeString f j (StrokesSessionID v) of
                (s, None) \<Rightarrow> (v\<lparr>StrokesSessionID := s\<rparr>, saved)
              | (s, Some e) \<Rightarrow> (v\<lparr>StrokesSessionID := s\<rparr>, saveError saved e))
           else
             (case storeInt64 f j (AppTokenExpiresAt v) of
                (w, None) \<Rightarrow> (v\<lparr>AppTokenExpiresAt := w\<rparr>, saved)
              | (w, Some e) \<Rightarrow> (v\<lparr>AppTokenExpiresAt := w\<rparr>, saveError saved e)))))"

definition unmarshalAppTokenResponse ::
  "json \<Rightarrow> AppTokenResponse \<Rightarrow> AppTokenResponse \<times> json_error option" where
  "unmarshalAppTokenResponse j v =
     (case j of
        JNull \<Rightarrow> (v, None)
      | JObj kvs \<Rightarrow> foldl storeAppTokenResponseMember (v, None) kvs
      | _ \<Rightarrow> (v, Some (UnmarshalTypeError (json_kind j) [])))"

definition AppTokenResponse_type :: "AppTokenResponse go_type" where
  "AppTokenResponse_type =
     \<lparr>zeroValue =
        \<lparr>AppToken = [], StrokesSessionID = [], AppTokenExpiresAt = 0, headers = Map.empty\<rparr>,
      unmarshal = unmarshalAppTokenResponse\<rparr>"

section \<open>Requests, responses and the client\<close>

text \<open>
  Every Go \<^verbatim>\<open>error\<close> value the dispatcher can return: what
  \<^verbatim>\<open>httpin.NewRequestWithContext\<close> reports (a request that cannot be built, a required
  field that is missing), what \<^verbatim>\<open>url.Parse\<close> and the transport report, a decoder
  error, and \<^verbatim>\<open>*APIError\<close>.
\<close>

datatype error =
  ErrRequest string
| ErrMissingField string
| ErrURL string
| ErrTransport string
| ErrJSON json_error
| ErrAPI APIError

text \<open>
  \<^verbatim>\<open>http.Header\<close> maps a name to its values. \<^verbatim>\<open>Get\<close> returns the first value or the
  empty string, \<^verbatim>\<open>Set\<close> replaces the values by one. The map is keyed by the name as
  the source writes it.
\<close>

type_synonym Header = "string \<rightharpoonup> string list"

definition Header_Get :: "Header \<Rightarrow> string \<Rightarrow> string" where
  "Header_Get h k = (case h k of None \<Rightarrow> [] | Some vs \<Rightarrow> (case vs of [] \<Rightarrow> [] | v # rest \<Rightarrow> v))"

definition Header_Set :: "Header \<Rightarrow> string \<Rightarrow> string \<Rightarrow> Header" where
  "Header_Set h k v = h(k \<mapsto> [v])"

record Request =
  Method :: string
  URL :: string
  Query :: "(string \<times> string) list"
  Header :: Header
  ReqBody :: "string option"

text \<open>
  Of an \<^verbatim>\<open>http.Response\<close> the dispatcher reads the status code and the body, a stream
  that it only ever hands to the JSON decoder.
\<close>

record Response =
  StatusCode :: int
  Body :: reader

definition http_MethodGet :: string where "http_MethodGet = ''GET''"
definition http_MethodPost :: string where "http_MethodPost = ''POST''"
definition http_StatusOK :: int where "http_StatusOK = 200"
definition http_StatusBadRequest :: int where "http_StatusBadRequest = 400"

text \<open>
  The functions of \<^verbatim>\<open>net/url\<close> that the client calls, over the library's own type of
  parsed URLs, and \<^verbatim>\<open>httpin.NewRequestWithContext\<close> (method, URL, input value) for the
  request type of an endpoint. They are parameters of the model.
\<close>

record 'url net_url =
  Parse :: "string \<Rightarrow> error + 'url"
  JoinPath :: "'url \<Rightarrow> string list \<Rightarrow> 'url"
  URLString :: "'url \<Rightarrow> string"

record ('url, 'req) library = "'url net_url" +
  NewRequestWithContext :: "string \<Rightarrow> string \<Rightarrow> 'req \<Rightarrow> error + Request"

text \<open>
  \<^verbatim>\<open>Client\<close>. The \<^verbatim>\<open>*http.Client\<close> is represented by its \<^verbatim>\<open>Do\<close> method, which
  answers a request with an error or a response (a cancelled context is one of the
  errors); \<^verbatim>\<open>SetCommonHeaders\<close> mutates the request it is given, here it returns it.
  Both are taken non-nil, as \<^verbatim>\<open>NewClient\<close> leaves them.
\<close>

record ('url, 'logger) Client =
  apiKey :: string
  appID :: string
  baseURL :: 'url
  client :: "Request \<Rightarrow> error + Response"
  logger :: "'logger option"
  SetCommonHeaders :: "Request \<Rightarrow> Request"

text \<open>The closure that \<^verbatim>\<open>NewClient\<close> installs as \<^verbatim>\<open>SetCommonHeaders\<close>.\<close>

definition commonHeaders :: "string \<Rightarrow> string \<Rightarrow> Request \<Rightarrow> Request" where
  "commonHeaders key app req =
     req\<lparr>Header := Header_Set (Header_Set (Header req) ''app_key'' key) ''app_id'' app\<rparr>"

text \<open>
  \<^verbatim>\<open>type ClientOption func(*Client)\<close>: an option maps the client to the client it
  leaves; it has no other result.
\<close>

definition WithBaseURL ::
  "('url, 'x) net_url_scheme \<Rightarrow> string \<Rightarrow> ('url, 'logger) Client \<Rightarrow> ('url, 'logger) Client" where
  "WithBaseURL lib s c =
     (case Parse lib s of
        Inr u \<Rightarrow> c\<lparr>baseURL := u\<rparr>
      | Inl e \<Rightarrow> c)"

definition WithLogger :: "'logger option \<Rightarrow> ('url, 'logger) Client \<Rightarrow> ('url, 'logger) Client" where
  "WithLogger l c = c\<lparr>logger := l\<rparr>"

definition WithClient ::
  "(Request \<Rightarrow> error + Response) \<Rightarrow> ('url, 'logger) Client \<Rightarrow> ('url, 'logger) Client" where
  "WithClient d c = c\<lparr>client := d\<rparr>"

text \<open>
  The first check of \<^verbatim>\<open>url.Parse\<close>, on the part of the string before any \<^verbatim>\<open>#\<close>: a
  byte below 0x20 or the byte 0x7f is refused ("invalid control character in URL").
\<close>

definition stringContainsCTLByte :: "string \<Rightarrow> bool" where
  "stringContainsCTLByte s =
     list_ex (\<lambda>b. (of_char b :: nat) < 32 \<or> (of_char b :: nat) = 127) s"

section \<open>Endpoint descriptors\<close>

text \<open>
  \<^verbatim>\<open>endpoint[Request, Response]{name, method string}\<close>. The two type parameters only
  fix the types at which \<^verbatim>\<open>call\<close> is used; the two zero-length array fields hold no
  data.
\<close>

record endpoint =
  name :: string
  method' :: string

definition imagesEndpoint :: endpoint where
  "imagesEndpoint = \<lparr>name = ''v3/image'', method' = http_MethodPost\<rparr>"
definition documentsEndpoint :: endpoint where
  "documentsEndpoint = \<lparr>name = ''v3/pdf'', method' = http_MethodPost\<rparr>"
definition conversionStatusEndpoint :: endpoint where
  "conversionStatusEndpoint = \<lparr>name = ''v3/status'', method' = http_MethodGet\<rparr>"
definition batchEndpoint :: endpoint where
  "batchEndpoint = \<lparr>name = ''v3/batch'', method' = http_MethodPost\<rparr>"
definition strokesEndpoint :: endpoint where
  "strokesEndpoint = \<lparr>name = ''v3/strokes'', method' = http_MethodPost\<rparr>"
definition appTokensEndpoint :: endpoint where
  "appTokensEndpoint = \<lparr>name = ''v3/app-tokens'', method' = http_MethodPost\<rparr>"
definition ocrResultsEndpoint :: endpoint where
  "ocrResultsEndpoint = \<lparr>name = ''v3/ocr-results'', method' = http_MethodGet\<rparr>"
definition getBatchEndpoint :: endpoint where
  "getBatchEndpoint = \<lparr>name = ''v3/batch'', method' = http_MethodGet\<rparr>"
definition requestUsageEndpoint :: endpoint where
  "requestUsageEndpoint = \<lparr>name = ''v3/usage'', method' = http_MethodPost\<rparr>"

section \<open>The dispatcher\<close>

text \<open>
  \<^verbatim>\<open>nopDecode[T]\<close> decodes through a tee into a buffer. On an error it returns a nil
  reader, the value as far as it was decoded, and the error (\<open>Inl\<close>); otherwise the
  buffer, which replays the bytes just read and so the same JSON value, and the value
  (\<open>Inr\<close>).
\<close>

definition nopDecode :: "'a go_type \<Rightarrow> reader \<Rightarrow> json_error \<times> 'a + reader \<times> 'a" where
  "nopDecode T r =
     (case Decode T r (zeroValue T) of
        (v, Some e) \<Rightarrow> Inl (e, v)
      | (v, None) \<Rightarrow> Inr (r, v))"

text \<open>
  What a call leaves: the two results of the Go function, and the requests it handed
  to the HTTP client's \<^verbatim>\<open>Do\<close>, in order.
\<close>

record 'resp outcome =
  response :: 'resp
  err :: "error option"
  sent :: "Request list"

text \<open>
  \<^verbatim>\<open>call[Request, Response]\<close>. \<open>T\<close> describes the type \<^verbatim>\<open>Response\<close>; the named
  result \<^verbatim>\<open>response\<close> starts as its zero value and is what the two bare
  \<^verbatim>\<open>return\<close>s give back.
\<close>

definition call ::
  "('url, 'req) library \<Rightarrow> 'resp go_type \<Rightarrow> ('url, 'logger) Client \<Rightarrow> endpoint
     \<Rightarrow> 'req \<Rightarrow> string \<Rightarrow> 'resp outcome" where
  "call lib T c e request param =
     (case NewRequestWithContext lib (method' e)
             (URLString lib (JoinPath lib (baseURL c) [name e, param])) request of
        Inl e0 \<Rightarrow> \<lparr>response = zeroValue T, err = Some e0, sent = []\<rparr>
      | Inr httpReq0 \<Rightarrow>
         (let httpReq1 = SetCommonHeaders c httpReq0;
              httpReq =
                (if Header_Get (Header httpReq1) ''Content-Type'' = []
                 then httpReq1\<lparr>Header :=
                        Header_Set (Header httpReq1) ''Content-Type'' ''application/json''\<rparr>
                 else httpReq1)
          in case client c httpReq of
               Inl e1 \<Rightarrow> \<lparr>response = zeroValue T, err = Some e1, sent = [httpReq]\<rparr>
             | Inr res \<Rightarrow>
                (case nopDecode APIError_type (Body res) of
                   Inl (e2, v) \<Rightarrow>
                     \<lparr>response = zeroValue T, err = Some (ErrJSON e2), sent = [httpReq]\<rparr>
                 | Inr (resp, apiErr) \<Rightarrow>
                     if StatusCode res < http_StatusOK \<or>
                        http_StatusBadRequest \<le> StatusCode res \<or>
                        isErrorID (ID apiErr)
                     then \<lparr>response = zeroValue T, err = Some (ErrAPI apiErr), sent = [httpReq]\<rparr>
                     else
                       (case Decode T resp (zeroValue T) of
                          (response1, Some e3) \<Rightarrow>
                            \<lparr>response = response1, err = Some (ErrJSON e3), sent = [httpReq]\<rparr>
                        | (response1, None) \<Rightarrow>
                            \<lparr>response = response1, err = None, sent = [httpReq]\<rparr>))))"

section \<open>The client facade\<close>

text \<open>
  The payload wrappers. Each holds a pointer to the caller's request (\<open>None\<close> is nil);
  \<^verbatim>\<open>getBatchPayload\<close> is the empty struct. The request types they point to are type
  parameters where the facade only passes them on.
\<close>

datatype 'a imageRequestPayload = ImageRequestPayload "'a option"
datatype 'a documentRequestPayload = DocumentRequestPayload "'a option"
datatype 'a postBatchRequestPayload = PostBatchRequestPayload "'a option"
datatype 'a requestStrokesPayload = RequestStrokesPayload "'a option"
datatype 'a ocrResultsPayload = OcrResultsPayload "'a option"
datatype appTokenPayload = AppTokenPayload "AppTokenRequest option"
datatype getBatchPayload = GetBatchPayload

record ResultRequest =
  PDFID :: string

datatype resultRequestPayload = ResultRequestPayload ResultRequest

text \<open>
  \<^verbatim>\<open>RequestUsage\<close>, with the directives of its struct tags:
  \<^verbatim>\<open>in:"query=from_date"\<close>, \<^verbatim>\<open>in:"query=to_date"\<close>,
  \<^verbatim>\<open>in:"query=group_by,required"\<close>, \<^verbatim>\<open>in:"query=timespan,required"\<close>.
  \<^verbatim>\<open>time.Time\<close> is a type parameter.
\<close>

record 'time RequestUsage =
  FromDate :: 'time
  ToDate :: 'time
  GroupBy :: string
  Timespan :: string

datatype 'time usagePayload = UsagePayload "'time RequestUsage option"

definition Image ::
  "('url, 'a imageRequestPayload) library \<Rightarrow> 'resp go_type \<Rightarrow> ('url, 'logger) Client
     \<Rightarrow> 'a option \<Rightarrow> 'resp outcome" where
  "Image lib T c request = call lib T c imagesEndpoint (ImageRequestPayload request) []"

definition Pdf ::
  "('url, 'a documentRequestPayload) library \<Rightarrow> 'resp go_type \<Rightarrow> ('url, 'logger) Client
     \<Rightarrow> 'a option \<Rightarrow> 'resp outcome" where
  "Pdf lib T c request = call lib T c documentsEndpoint (DocumentRequestPayload request) []"

text \<open>
  \<^verbatim>\<open>PdfResult\<close> passes a nil request and reads \<^verbatim>\<open>request.PDFID\<close>: with a nil argument
  that is a nil pointer dereference, a panic (\<open>None\<close>).
\<close>

definition PdfResult ::
  "('url, resultRequestPayload option) library \<Rightarrow> 'resp go_type \<Rightarrow> ('url, 'logger) Client
     \<Rightarrow> ResultRequest option \<Rightarrow> 'resp outcome option" where
  "PdfResult lib T c request =
     (case request of
        None \<Rightarrow> None
      | Some r \<Rightarrow> Some (call lib T c conversionStatusEndpoint None (PDFID r)))"

definition Batch ::
  "('url, 'a postBatchRequestPayload) library \<Rightarrow> 'resp go_type \<Rightarrow> ('url, 'logger) Client
     \<Rightarrow> 'a option \<Rightarrow> 'resp outcome" where
  "Batch lib T c request = call lib T c batchEndpoint (PostBatchRequestPayload request) []"

definition RequestStrokes ::
  "('url, 'a requestStrokesPayload) library \<Rightarrow> 'resp go_type \<Rightarrow> ('url, 'logger) Client
     \<Rightarrow> 'a option \<Rightarrow> 'resp outcome" where
  "RequestStrokes lib T c request =
     call lib T c strokesEndpoint (RequestStrokesPayload request) []"

definition SearchResults ::
  "('url, 'a ocrResultsPayload) library \<Rightarrow> 'resp go_type \<Rightarrow> ('url, 'logger) Client
     \<Rightarrow> 'a option \<Rightarrow> 'resp outcome" where
  "SearchResults lib T c request =
     call lib T c ocrResultsEndpoint (OcrResultsPayload request) []"

definition NewClientToken ::
  "('url, appTokenPayload) library \<Rightarrow> 'resp go_type \<Rightarrow> ('url, 'logger) Client
     \<Rightarrow> AppTokenRequest option \<Rightarrow> 'resp outcome" where
  "NewClientToken lib T c request =
     call lib T c appTokensEndpoint (AppTokenPayload request) []"

definition GetBatch ::
  "('url, getBatchPayload) library \<Rightarrow> 'resp go_type \<Rightarrow> ('url, 'logger) Client
     \<Rightarrow> string \<Rightarrow> 'resp outcome" where
  "GetBatch lib T c batchID = call lib T c getBatchEndpoint GetBatchPayload batchID"

definition RequestUsage ::
  "('url, 'time usagePayload) library \<Rightarrow> 'resp go_type \<Rightarrow> ('url, 'logger) Client
     \<Rightarrow> 'time RequestUsage option \<Rightarrow> 'resp outcome" where
  "RequestUsage lib T c request =
     call lib T c requestUsageEndpoint (UsagePayload request) []"

section \<open>The payload encoder\<close>

text \<open>
  The directives a struct tag \<^verbatim>\<open>in:"..."\<close> can carry in these sources:
  \<^verbatim>\<open>query=NAME\<close>, \<^verbatim>\<open>required\<close> and \<^verbatim>\<open>body=json\<close>. A field is seen by the encoder as
  its directives, whether its value is the zero value of its type, and the value's
  rendering as a string.
\<close>

datatype directive = QueryParam string | Required | BodyJSON

record field =
  fieldName :: string
  directives :: "directive list"
  isZero :: bool
  rendered :: string

record fragment =
  queryParams :: "(string \<times> string) list"
  bodyBytes :: "string option"

text \<open>
  Modelled from the spec: the Payload Encoder, which in the sources is the library
  \<^verbatim>\<open>github.com/ggicci/httpin\<close> behind \<^verbatim>\<open>httpin.NewRequestWithContext\<close> and is not part of
  them. Section 4.1: a \<^emph>\<open>query parameter\<close> directive adds the field to the query
  string; \<^emph>\<open>required\<close> fails with a caller-input error if the field's value is the
  type's zero/empty value; \<^emph>\<open>serialized body\<close> makes the serialized value the request
  body. The encoder performs no I/O.
\<close>

fun runDirective :: "field \<Rightarrow> fragment \<Rightarrow> directive \<Rightarrow> error + fragment" where
  "runDirective f frag (QueryParam k) =
     Inr (frag\<lparr>queryParams := queryParams frag @ [(k, rendered f)]\<rparr>)"
| "runDirective f frag Required =
     (if isZero f then Inl (ErrMissingField (fieldName f)) else Inr frag)"
| "runDirective f frag BodyJSON = Inr (frag\<lparr>bodyBytes := Some (rendered f)\<rparr>)"

fun runDirectives :: "field \<Rightarrow> fragment \<Rightarrow> directive list \<Rightarrow> error + fragment" where
  "runDirectives f frag [] = Inr frag"
| "runDirectives f frag (d # ds) =
     (case runDirective f frag d of
        Inl e \<Rightarrow> Inl e
      | Inr frag1 \<Rightarrow> runDirectives f frag1 ds)"

fun encodeFields :: "fragment \<Rightarrow> field list \<Rightarrow> error + fragment" where
  "encodeFields frag [] = Inr frag"
| "encodeFields frag (f # fs) =
     (case runDirectives f frag (directives f) of
        Inl e \<Rightarrow> Inl e
      | Inr frag1 \<Rightarrow> encodeFields frag1 fs)"

definition encode :: "field list \<Rightarrow> error + fragment" where
  "encode fs = encodeFields \<lparr>queryParams = [], bodyBytes = None\<rparr> fs"

text \<open>
  Modelled from the spec: \<^verbatim>\<open>httpin.NewRequestWithContext\<close> as the encoder followed by
  the construction of the request; \<open>fieldsOf\<close> lists the fields of the request type with
  their directives. Nothing is sent.
\<close>

definition spec_NewRequestWithContext ::
  "('req \<Rightarrow> field list) \<Rightarrow> string \<Rightarrow> string \<Rightarrow> 'req \<Rightarrow> error + Request" where
  "spec_NewRequestWithContext fieldsOf m u request =
     (case encode (fieldsOf request) of
        Inl e \<Rightarrow> Inl e
      | Inr frag \<Rightarrow>
          Inr \<lparr>Method = m, URL = u, Query = queryParams frag, Header = Map.empty,
               ReqBody = bodyBytes frag\<rparr>)"

text \<open>
  The fields of \<^verbatim>\<open>RequestUsage\<close> with the directives of their tags, in the order of the
  struct. \<open>timeIsZero\<close> and \<open>formatTime\<close> stand for \<^verbatim>\<open>time.Time\<close>'s zero test and its
  rendering.
\<close>

definition RequestUsage_fields ::
  "('time \<Rightarrow> bool) \<Rightarrow> ('time \<Rightarrow> string) \<Rightarrow> 'time RequestUsage \<Rightarrow> field list" where
  "RequestUsage_fields timeIsZero formatTime r =
     [\<lparr>fieldName = ''FromDate'', directives = [QueryParam ''from_date''],
       isZero = timeIsZero (FromDate r), rendered = formatTime (FromDate r)\<rparr>,
      \<lparr>fieldName = ''ToDate'', directives = [QueryParam ''to_date''],
       isZero = timeIsZero (ToDate r), rendered = formatTime (ToDate r)\<rparr>,
      \<lparr>fieldName = ''GroupBy'', directives = [QueryParam ''group_by'', Required],
       isZero = (GroupBy r = []), rendered = GroupBy r\<rparr>,
      \<lparr>fieldName = ''Timespan'', directives = [QueryParam ''timespan'', Required],
       isZero = (Timespan r = []), rendered = Timespan r\<rparr>]"

text \<open>
  The fields of the wrapper \<^verbatim>\<open>usagePayload\<close>, which is the request type of
  \<^verbatim>\<open>requestUsageEndpoint\<close> and what \<^verbatim>\<open>Client.RequestUsage\<close> passes to \<^verbatim>\<open>call\<close>: the
  single field \<^verbatim>\<open>Payload *RequestUsage\<close>, whose tag is \<^verbatim>\<open>json:"payload"\<close>. Unlike the
  other wrappers (\<^verbatim>\<open>in:"body=json"\<close>) it carries no \<^verbatim>\<open>in:\<close> directive. \<open>serialize\<close>
  stands for the rendering of the pointer's value.
\<close>

fun usagePayload_fields ::
  "('time RequestUsage option \<Rightarrow> string) \<Rightarrow> 'time usagePayload \<Rightarrow> field list" where
  "usagePayload_fields serialize (UsagePayload p) =
     [\<lparr>fieldName = ''Payload'', directives = [], isZero = (p = None),
       rendered = serialize p\<rparr>]"

section \<open>Fixtures\<close>

text \<open>
  Stand-ins for the libraries and the server in the examples below. \<open>stub_url\<close> keeps
  parsed URLs as strings; of \<^verbatim>\<open>url.Parse\<close> it has the refusal of control bytes.
  \<open>stub_library\<close> builds a request from the method and the URL alone. \<open>server\<close> answers
  every request with one status and body. \<open>test_client\<close> is a client as \<^verbatim>\<open>NewClient\<close>
  leaves it, with the fixture as its transport.
\<close>

definition stub_url :: "string net_url" where
  "stub_url =
     \<lparr>Parse = (\<lambda>s. if stringContainsCTLByte (takeWhile (\<lambda>b. \<not> b = CHR ''#'') s)
                    then Inl (ErrURL ''invalid control character in URL'') else Inr s),
      JoinPath = (\<lambda>u elems. foldl (\<lambda>p e. if e = [] then p else p @ ''/'' @ e) u elems),
      URLString = (\<lambda>u. u)\<rparr>"

definition stub_library :: "(string, 'req) library" where
  "stub_library =
     \<lparr>Parse = Parse stub_url, JoinPath = JoinPath stub_url, URLString = URLString stub_url,
      NewRequestWithContext =
        (\<lambda>m u request.
           Inr \<lparr>Method = m, URL = u, Query = [], Header = Map.empty, ReqBody = None\<rparr>)\<rparr>"

definition server :: "int \<Rightarrow> reader \<Rightarrow> Request \<Rightarrow> error + Response" where
  "server status body req = Inr \<lparr>StatusCode = status, Body = body\<rparr>"

definition test_client :: "(Request \<Rightarrow> error + Response) \<Rightarrow> (string, unit) Client" where
  "test_client d =
     \<lparr>apiKey = ''key'', appID = ''app'', baseURL = ''https://api.mathpix.com'',
      client = d, logger = None, SetCommonHeaders = commonHeaders ''key'' ''app''\<rparr>"

definition image_missing_envelope :: json where
  "image_missing_envelope = JObj [(''error'', JObj [(''id'', JStr ''image_missing'')])]"

text \<open>The request that a call on the fixtures hands to the transport.\<close>

definition wire :: "endpoint \<Rightarrow> string \<Rightarrow> Request" where
  "wire e param =
     \<lparr>Method = method' e,
      URL = JoinPath stub_url ''https://api.mathpix.com'' [name e, param],
      Query = [],
      Header = [''app_key'' \<mapsto> [''key''], ''app_id'' \<mapsto> [''app''],
                ''Content-Type'' \<mapsto> [''application/json'']],
      ReqBody = None\<rparr>"

text \<open>
  A library whose \<^verbatim>\<open>NewRequestWithContext\<close> is the encoder modelled above, for a request
  type with the given fields.
\<close>

definition with_encoder ::
  "('url, 'req) library \<Rightarrow> ('req \<Rightarrow> field list) \<Rightarrow> ('url, 'req) library" where
  "with_encoder lib fieldsOf =
     lib\<lparr>NewRequestWithContext := spec_NewRequestWithContext fieldsOf\<rparr>"

section \<open>Auxiliary notions for the proofs\<close>

text \<open>
  Two stages of \<^verbatim>\<open>call\<close>, named for the proofs: the request as it is handed to \<^verbatim>\<open>Do\<close>
  (common headers set, content type defaulted), and what \<^verbatim>\<open>call\<close> returns once \<^verbatim>\<open>Do\<close>
  has answered with a response.
\<close>

definition prepared :: "('url, 'logger) Client \<Rightarrow> Request \<Rightarrow> Request" where
  "prepared c httpReq0 =
     (if Header_Get (Header (SetCommonHeaders c httpReq0)) ''Content-Type'' = []
      then (SetCommonHeaders c httpReq0)\<lparr>Header :=
             Header_Set (Header (SetCommonHeaders c httpReq0)) ''Content-Type''
               ''application/json''\<rparr>
      else SetCommonHeaders c httpReq0)"

definition classified :: "'resp go_type \<Rightarrow> Request \<Rightarrow> Response \<Rightarrow> 'resp outcome" where
  "classified T rq res =
     (case Decode APIError_type (Body res) (zeroValue APIError_type) of
        (v, Some e2) \<Rightarrow> \<lparr>response = zeroValue T, err = Some (ErrJSON e2), sent = [rq]\<rparr>
      | (apiErr, None) \<Rightarrow>
          if StatusCode res < 200 \<or> 400 \<le> StatusCode res \<or> isErrorID (ID apiErr)
          then \<lparr>response = zeroValue T, err = Some (ErrAPI apiErr), sent = [rq]\<rparr>
          else \<lparr>response = fst (Decode T (Body res) (zeroValue T)),
                err = map_option ErrJSON (snd (Decode T (Body res) (zeroValue T))),
                sent = [rq]\<rparr>)"

text \<open>The range that the builder methods of a token request maintain.\<close>

definition token_inv :: "AppTokenRequest \<Rightarrow> bool" where
  "token_inv r =
     (30 \<le> sint (Expires r) \<and> sint (Expires r) \<le> 43200 \<and>
      (if IncludeStrokesSessionID r then sint (Expires r) \<le> 300 else True))"

section \<open>Basic facts\<close>

lemmas ErrorID_defs =
  ErrHTTPUnauthorized_def ErrHTTPMaxRequests_def ErrJSONSyntax_def ErrImageMissing_def
  ErrImageDownload_def ErrImageDecode_def ErrImageNoContent_def ErrImageNotSupported_def
  ErrImageMaxSize_def ErrStrokesMissing_def ErrStrokesSyntaxError_def ErrStrokesNoContent_def
  ErrOptsBadCallback_def ErrOptsUnknownOCR_def ErrOptsUnknownFormat_def
  ErrOptsNumberRequired_def ErrOptsValueOutOfRange_def ErrPDFEncrypted_def ErrPDFUnknownID_def
  ErrPDFMissing_def ErrPDFPageLimitExceeded_def ErrMathConfidence_def ErrMathSyntax_def
  ErrBatchUnknownID_def ErrSysException_def ErrSysRequestTooLarge_def

lemmas endpoint_defs =
  imagesEndpoint_def documentsEndpoint_def conversionStatusEndpoint_def batchEndpoint_def
  strokesEndpoint_def appTokensEndpoint_def ocrResultsEndpoint_def getBatchEndpoint_def
  requestUsageEndpoint_def http_MethodGet_def http_MethodPost_def

lemma isErrorID_image_missing: "isErrorID ''image_missing''"
  by (simp add: isErrorID_def knownErrorIDs_def ErrorID_defs)

lemma not_isErrorID_empty: "\<not> isErrorID []"
  by (simp add: isErrorID_def knownErrorIDs_def ErrorID_defs)

lemma lookupField_id: "lookupField [''id'', ''message'', ''detail''] ''id'' = Some ''id''"
  by (simp add: lookupField_def)

lemma lookupField_error: "lookupField [''id'', ''message'', ''detail''] ''error'' = None"
  by (simp add: lookupField_def toUpperASCII_def)

lemma Decode_flat_envelope:
  "Decode APIError_type (Some (JObj [(''id'', JStr ''image_missing'')]))
     (zeroValue APIError_type) =
     (\<lparr>ID = ''image_missing'', Message = None, Detail = None\<rparr>, None)"
  by (simp add: Decode_def APIError_type_def unmarshalAPIError_def storeAPIErrorMember_def
      lookupField_id storeString_def)

lemma Decode_nested_envelope:
  "Decode APIError_type (Some image_missing_envelope) (zeroValue APIError_type) =
     (\<lparr>ID = [], Message = None, Detail = None\<rparr>, None)"
  by (simp add: Decode_def APIError_type_def unmarshalAPIError_def storeAPIErrorMember_def
      lookupField_error image_missing_envelope_def)

lemma Decode_nested_envelope_as_ErrorResponse:
  "Decode ErrorResponse_type (Some image_missing_envelope) (zeroValue ErrorResponse_type) =
     (\<lparr>ErrorResponse_Error = \<lparr>ID = ''image_missing'', Message = None, Detail = None\<rparr>\<rparr>,
      None)"
  by (simp add: Decode_def ErrorResponse_type_def unmarshalErrorResponse_def
      storeErrorResponseMember_def image_missing_envelope_def lookupField_def
      APIError_type_def unmarshalAPIError_def storeAPIErrorMember_def storeString_def)

lemma Decode_null_envelope:
  "Decode APIError_type (Some JNull) (zeroValue APIError_type) =
     (\<lparr>ID = [], Message = None, Detail = None\<rparr>, None)"
  by (simp add: Decode_def APIError_type_def unmarshalAPIError_def)

lemma zeroValue_pointerTo: "zeroValue (pointerTo T) = None"
  by (simp add: pointerTo_def)

lemma unmarshal_pointerTo: "unmarshal (pointerTo T) = unmarshalPointer T"
  by (simp add: pointerTo_def)

subsection \<open>The stages of a call\<close>

lemma call_build_failed:
  "NewRequestWithContext lib (method' e)
     (URLString lib (JoinPath lib (baseURL c) [name e, param])) request = Inl e0 \<Longrightarrow>
   call lib T c e request param = \<lparr>response = zeroValue T, err = Some e0, sent = []\<rparr>"
  by (simp add: call_def)

lemma call_transport_failed:
  "NewRequestWithContext lib (method' e)
     (URLString lib (JoinPath lib (baseURL c) [name e, param])) request = Inr h \<Longrightarrow>
   client c (prepared c h) = Inl e1 \<Longrightarrow>
   call lib T c e request param =
     \<lparr>response = zeroValue T, err = Some e1, sent = [prepared c h]\<rparr>"
  by (simp add: call_def prepared_def Let_def)

lemma call_answered:
  "NewRequestWithContext lib (method' e)
     (URLString lib (JoinPath lib (baseURL c) [name e, param])) request = Inr h \<Longrightarrow>
   client c (prepared c h) = Inr res \<Longrightarrow>
   call lib T c e request param = classified T (prepared c h) res"
  unfolding call_def prepared_def [symmetric] Let_def classified_def nopDecode_def
    http_StatusOK_def http_StatusBadRequest_def
  by (simp add: prepared_def [symmetric] split: prod.splits option.splits)

lemma sent_classified: "sent (classified T rq res) = [rq]"
  by (simp add: classified_def split: prod.splits option.splits)

lemma call_sent_one:
  assumes "sent (call lib T c e request param) = [rq]"
  shows "\<exists>h. NewRequestWithContext lib (method' e)
            (URLString lib (JoinPath lib (baseURL c) [name e, param])) request = Inr h \<and>
          rq = prepared c h"
proof (cases "NewRequestWithContext lib (method' e)
            (URLString lib (JoinPath lib (baseURL c) [name e, param])) request")
  case (Inl e0)
  from call_build_failed [OF Inl, of T] assms show ?thesis by simp
next
  case (Inr h)
  note built = this
  have "sent (call lib T c e request param) = [prepared c h]"
  proof (cases "client c (prepared c h)")
    case (Inl e1)
    from call_transport_failed [OF built Inl, of T] show ?thesis by simp
  next
    case (Inr res)
    from call_answered [OF built Inr, of T] show ?thesis by (simp add: sent_classified)
  qed
  with assms built show ?thesis by simp
qed

lemma call_classified:
  assumes "sent (call lib T c e request param) = [rq]" and "client c rq = Inr res"
  shows "call lib T c e request param = classified T rq res"
proof -
  from call_sent_one [OF assms(1)] obtain h where
    h: "NewRequestWithContext lib (method' e)
            (URLString lib (JoinPath lib (baseURL c) [name e, param])) request = Inr h"
    and rq: "rq = prepared c h" by blast
  from assms(2) rq have "client c (prepared c h) = Inr res" by simp
  from call_answered [OF h this, of T] rq show ?thesis by simp
qed

subsection \<open>Calls on the fixtures\<close>

lemma fixture_call:
  "call stub_library T (test_client (server st body)) e request param =
     classified T (wire e param) \<lparr>StatusCode = st, Body = body\<rparr>"
proof -
  have h: "NewRequestWithContext stub_library (method' e)
     (URLString stub_library
        (JoinPath stub_library (baseURL (test_client (server st body))) [name e, param]))
     request =
     Inr \<lparr>Method = method' e,
          URL = JoinPath stub_url ''https://api.mathpix.com'' [name e, param],
          Query = [], Header = Map.empty, ReqBody = None\<rparr>"
    by (simp add: stub_library_def stub_url_def test_client_def)
  have p: "prepared (test_client (server st body))
     \<lparr>Method = method' e,
      URL = JoinPath stub_url ''https://api.mathpix.com'' [name e, param],
      Query = [], Header = Map.empty, ReqBody = None\<rparr> = wire e param"
    by (simp add: prepared_def test_client_def commonHeaders_def Header_Get_def
        Header_Set_def wire_def)
  have r: "client (test_client (server st body)) (wire e param) =
      Inr \<lparr>StatusCode = st, Body = body\<rparr>"
    by (simp add: test_client_def server_def)
  from call_answered [OF h, of "\<lparr>StatusCode = st, Body = body\<rparr>" T] p r
  show ?thesis by simp
qed

lemma fixture_sent:
  "sent (call stub_library T (test_client (server st body)) e request param) = [wire e param]"
  by (simp add: fixture_call sent_classified)

lemma fixture_answer:
  "client (test_client (server st body)) rq = Inr \<lparr>StatusCode = st, Body = body\<rparr>"
  by (simp add: test_client_def server_def)

subsection \<open>Decoding token responses\<close>

lemma lookupField_envelope_app_token:
  "lookupField [''id'', ''message'', ''detail''] ''app_token'' = None"
  by (simp add: lookupField_def toUpperASCII_def)

lemma lookupField_envelope_expires:
  "lookupField [''id'', ''message'', ''detail''] ''app_token_expires_at'' = None"
  by (simp add: lookupField_def toUpperASCII_def)

lemma lookupField_app_token:
  "lookupField [''app_token'', ''strokes_session_id'', ''app_token_expires_at''] ''app_token'' =
     Some ''app_token''"
  by (simp add: lookupField_def)

lemma lookupField_expires:
  "lookupField [''app_token'', ''strokes_session_id'', ''app_token_expires_at'']
     ''app_token_expires_at'' = Some ''app_token_expires_at''"
  by (simp add: lookupField_def)

lemma Decode_envelope_of_token_body:
  "Decode APIError_type
     (Some (JObj [(''app_token'', JStr ''tok''), (''app_token_expires_at'', JStr ''soon'')]))
     (zeroValue APIError_type) = (\<lparr>ID = [], Message = None, Detail = None\<rparr>, None)"
  by (simp add: Decode_def APIError_type_def unmarshalAPIError_def storeAPIErrorMember_def
      lookupField_envelope_app_token lookupField_envelope_expires)

lemma Decode_token_body:
  "Decode (pointerTo AppTokenResponse_type)
     (Some (JObj [(''app_token'', JStr ''tok''), (''app_token_expires_at'', JStr ''soon'')]))
     (zeroValue (pointerTo AppTokenResponse_type)) =
     (Some \<lparr>AppToken = ''tok'', StrokesSessionID = [], AppTokenExpiresAt = 0,
             headers = Map.empty\<rparr>,
      Some (UnmarshalTypeError ''string'' ''app_token_expires_at''))"
  by (simp add: Decode_def pointerTo_def unmarshalPointer_def AppTokenResponse_type_def
      unmarshalAppTokenResponse_def storeAppTokenResponseMember_def lookupField_app_token
      lookupField_expires storeString_def storeInt64_def saveError_def)

lemma Decode_token_null:
  "Decode (pointerTo AppTokenResponse_type) (Some JNull)
     (zeroValue (pointerTo AppTokenResponse_type)) = (None, None)"
  by (simp add: Decode_def pointerTo_def unmarshalPointer_def)

subsection \<open>Encoding a usage request\<close>

lemma encode_usage_missing_GroupBy:
  "GroupBy r = [] \<Longrightarrow>
   encode (RequestUsage_fields z fmt r) = Inl (ErrMissingField ''GroupBy'')"
  by (simp add: encode_def RequestUsage_fields_def)

lemma encode_usage_missing_Timespan:
  "GroupBy r \<noteq> [] \<Longrightarrow> Timespan r = [] \<Longrightarrow>
   encode (RequestUsage_fields z fmt r) = Inl (ErrMissingField ''Timespan'')"
  by (simp add: encode_def RequestUsage_fields_def)

lemma encode_usage_complete:
  "GroupBy r \<noteq> [] \<Longrightarrow> Timespan r \<noteq> [] \<Longrightarrow>
   encode (RequestUsage_fields z fmt r) =
     Inr \<lparr>queryParams = [(''from_date'', fmt (FromDate r)), (''to_date'', fmt (ToDate r)),
                         (''group_by'', GroupBy r), (''timespan'', Timespan r)],
          bodyBytes = None\<rparr>"
  by (simp add: encode_def RequestUsage_fields_def)

lemma encode_usagePayload:
  "encode (usagePayload_fields ser p) = Inr \<lparr>queryParams = [], bodyBytes = None\<rparr>"
  by (cases p) (simp add: encode_def)

lemma call_sent_built:
  assumes "NewRequestWithContext lib (method' e)
     (URLString lib (JoinPath lib (baseURL c) [name e, param])) request = Inr h"
  shows "sent (call lib T c e request param) = [prepared c h]"
proof (cases "client c (prepared c h)")
  case (Inl e1)
  from call_transport_failed [OF assms Inl, of T] show ?thesis by simp
next
  case (Inr res)
  from call_answered [OF assms Inr, of T] show ?thesis by (simp add: sent_classified)
qed

subsection \<open>The range of a token request\<close>

lemma token_inv_New: "token_inv NewAppTokenRequest"
  by (simp add: token_inv_def NewAppTokenRequest_def)

lemma token_inv_WithStrokesSession: "token_inv r \<Longrightarrow> token_inv (WithStrokesSession r)"
  by (simp add: token_inv_def WithStrokesSession_def Let_def word_sless_alt)

lemma token_inv_WithExpiration: "token_inv (WithExpiration r s)"
  by (simp add: token_inv_def WithExpiration_def Let_def word_sless_alt)

lemma token_inv_apply_builder: "token_inv r \<Longrightarrow> token_inv (apply_builder r b)"
  by (cases b) (simp_all add: token_inv_WithStrokesSession token_inv_WithExpiration)

lemma token_inv_apply_builders: "token_inv r \<Longrightarrow> token_inv (apply_builders r bs)"
  unfolding apply_builders_def
  by (induction bs arbitrary: r) (simp_all add: token_inv_apply_builder)

section \<open>The claims\<close>

text \<open>
  Claim C1. For every known error identifier: if the response that answered the call's
  request has a 2xx status and the error envelope decoded from its body (the
  \<^verbatim>\<open>APIError\<close> that \<^verbatim>\<open>nopDecode\<close> yields without an error) carries that identifier,
  then the call returns that \<^verbatim>\<open>APIError\<close> as its error and the zero value as its typed
  response.
\<close>

theorem in_band_error_overrides_2xx:
  assumes "isErrorID i"
    and "sent (call lib T c e request param) = [rq]"
    and "client c rq = Inr res"
    and "200 \<le> StatusCode res" and "StatusCode res < 300"
    and "Decode APIError_type (Body res) (zeroValue APIError_type) = (apiErr, None)"
    and "ID apiErr = i"
  shows "err (call lib T c e request param) = Some (ErrAPI apiErr) \<and>
         response (call lib T c e request param) = zeroValue T"
  using assms(1,6,7) by (simp add: call_classified [OF assms(2,3)] classified_def)

theorem in_band_error_overrides_2xx_witness:
  "isErrorID ''image_missing'' \<and>
   err (call stub_library (pointerTo AppTokenResponse_type)
          (test_client (server 200 (Some (JObj [(''id'', JStr ''image_missing'')]))))
          imagesEndpoint (ImageRequestPayload (Some ())) []) =
     Some (ErrAPI \<lparr>ID = ''image_missing'', Message = None, Detail = None\<rparr>) \<and>
   response (call stub_library (pointerTo AppTokenResponse_type)
          (test_client (server 200 (Some (JObj [(''id'', JStr ''image_missing'')]))))
          imagesEndpoint (ImageRequestPayload (Some ())) []) = None"
proof -
  let ?body = "Some (JObj [(''id'', JStr ''image_missing'')])"
  let ?res = "\<lparr>StatusCode = 200, Body = ?body\<rparr>"
  let ?out = "call stub_library (pointerTo AppTokenResponse_type)
          (test_client (server 200 ?body)) imagesEndpoint (ImageRequestPayload (Some ())) []"
  have s: "sent ?out = [wire imagesEndpoint []]"
    by (rule fixture_sent)
  have r: "client (test_client (server 200 ?body)) (wire imagesEndpoint []) = Inr ?res"
    by (rule fixture_answer)
  have d: "Decode APIError_type (Body ?res) (zeroValue APIError_type) =
     (\<lparr>ID = ''image_missing'', Message = None, Detail = None\<rparr>, None)"
    by (simp add: Decode_flat_envelope)
  from in_band_error_overrides_2xx [OF isErrorID_image_missing s r _ _ d]
  show ?thesis by (simp add: isErrorID_image_missing zeroValue_pointerTo)
qed

text \<open>
  Claim C2 (the code departs from it). \<^verbatim>\<open>Client.Image\<close> against a server that answers
  HTTP 200 with the body \<^verbatim>\<open>{"error":{"id":"image_missing"}}\<close>: \<^verbatim>\<open>call\<close> decodes the body
  into \<^verbatim>\<open>APIError\<close>, not into \<^verbatim>\<open>ErrorResponse\<close>, so the member \<^verbatim>\<open>"error"\<close> matches no
  field, the identifier stays empty and the response is classified as a success. For
  every response type the call returns what the decoder of that type makes of the body,
  and never an \<^verbatim>\<open>APIError\<close>; decoded into \<^verbatim>\<open>ErrorResponse\<close>, the same body carries the
  known identifier \<^verbatim>\<open>image_missing\<close>.
\<close>

theorem Image_nested_envelope_not_classified:
  "err (Image stub_library T (test_client (server 200 (Some image_missing_envelope))) request) =
     map_option ErrJSON (snd (unmarshal T image_missing_envelope (zeroValue T))) \<and>
   response (Image stub_library T (test_client (server 200 (Some image_missing_envelope)))
      request) = fst (unmarshal T image_missing_envelope (zeroValue T)) \<and>
   (\<forall>a. \<not> err (Image stub_library T (test_client (server 200 (Some image_missing_envelope)))
      request) = Some (ErrAPI a)) \<and>
   isErrorID (ID (ErrorResponse_Error (fst (Decode ErrorResponse_type
      (Some image_missing_envelope) (zeroValue ErrorResponse_type)))))"
proof -
  have "Image stub_library T (test_client (server 200 (Some image_missing_envelope))) request =
      \<lparr>response = fst (unmarshal T image_missing_envelope (zeroValue T)),
       err = map_option ErrJSON (snd (unmarshal T image_missing_envelope (zeroValue T))),
       sent = [wire imagesEndpoint []]\<rparr>"
    by (simp add: Image_def fixture_call classified_def Decode_nested_envelope
        not_isErrorID_empty) (simp add: Decode_def)
  then show ?thesis
    by (cases "snd (unmarshal T image_missing_envelope (zeroValue T))")
       (simp_all add: Decode_nested_envelope_as_ErrorResponse isErrorID_image_missing)
qed

text \<open>
  Claim C3, as stated, fails. Minting a token against a server that answers HTTP 200 with
  \<^verbatim>\<open>{"app_token":"tok","app_token_expires_at":"soon"}\<close> returns a decoder error together
  with a populated response (the bare \<^verbatim>\<open>return\<close> after the failed \<^verbatim>\<open>Decode\<close>); against
  a server that answers HTTP 200 with \<^verbatim>\<open>null\<close> it returns a nil response and a nil
  error.
\<close>

theorem exactly_one_result_counterexample:
  "err (NewClientToken stub_library (pointerTo AppTokenResponse_type)
          (test_client (server 200
             (Some (JObj [(''app_token'', JStr ''tok''),
                          (''app_token_expires_at'', JStr ''soon'')]))))
          (Some NewAppTokenRequest)) =
     Some (ErrJSON (UnmarshalTypeError ''string'' ''app_token_expires_at'')) \<and>
   response (NewClientToken stub_library (pointerTo AppTokenResponse_type)
          (test_client (server 200
             (Some (JObj [(''app_token'', JStr ''tok''),
                          (''app_token_expires_at'', JStr ''soon'')]))))
          (Some NewAppTokenRequest)) =
     Some \<lparr>AppToken = ''tok'', StrokesSessionID = [], AppTokenExpiresAt = 0,
            headers = Map.empty\<rparr> \<and>
   err (NewClientToken stub_library (pointerTo AppTokenResponse_type)
          (test_client (server 200 (Some JNull))) (Some NewAppTokenRequest)) = None \<and>
   response (NewClientToken stub_library (pointerTo AppTokenResponse_type)
          (test_client (server 200 (Some JNull))) (Some NewAppTokenRequest)) = None"
  by (simp add: NewClientToken_def fixture_call classified_def Decode_envelope_of_token_body
      Decode_token_body Decode_null_envelope Decode_token_null not_isErrorID_empty)

text \<open>
  Claim C3, amended. Every call either fails before the response is decoded (the request
  cannot be built, the transport fails, the error envelope cannot be decoded, or the
  status or the identifier classifies the response as a failure) and then returns an
  error with the zero response; or it returns exactly what the JSON decoder leaves for
  the body at the response type: the decoded response and no error, or the response as
  far as it was decoded together with the decoder's error.
\<close>

theorem call_result_shape:
  "(\<exists>e0. err (call lib T c e request param) = Some e0 \<and>
          response (call lib T c e request param) = zeroValue T) \<or>
   (\<exists>rq res. sent (call lib T c e request param) = [rq] \<and> client c rq = Inr res \<and>
      response (call lib T c e request param) = fst (Decode T (Body res) (zeroValue T)) \<and>
      err (call lib T c e request param) =
        map_option ErrJSON (snd (Decode T (Body res) (zeroValue T))))"
proof (cases "NewRequestWithContext lib (method' e)
            (URLString lib (JoinPath lib (baseURL c) [name e, param])) request")
  case (Inl e0)
  from call_build_failed [OF Inl, of T] show ?thesis by simp
next
  case (Inr h)
  note built = this
  show ?thesis
  proof (cases "client c (prepared c h)")
    case (Inl e1)
    from call_transport_failed [OF built Inl, of T] show ?thesis by simp
  next
    case (Inr res)
    note eq = call_answered [OF built Inr, of T]
    obtain v r where d: "Decode APIError_type (Body res) (zeroValue APIError_type) = (v, r)"
      by (cases "Decode APIError_type (Body res) (zeroValue APIError_type)")
    show ?thesis
    proof (cases "r = None \<and>
        \<not> (StatusCode res < 200 \<or> 400 \<le> StatusCode res \<or> isErrorID (ID v))")
      case True
      with d eq have "call lib T c e request param =
          \<lparr>response = fst (Decode T (Body res) (zeroValue T)),
           err = map_option ErrJSON (snd (Decode T (Body res) (zeroValue T))),
           sent = [prepared c h]\<rparr>"
        by (simp add: classified_def)
      with Inr show ?thesis by simp
    next
      case False
      with d eq have "\<exists>e0. call lib T c e request param =
          \<lparr>response = zeroValue T, err = Some e0, sent = [prepared c h]\<rparr>"
        by (cases r) (auto simp add: classified_def)
      then show ?thesis by auto
    qed
  qed
qed

text \<open>
  Claim C4. For every status code outside [200, 399] and every body of the response that
  answered the call's request, the call returns the zero response and an error: the
  \<^verbatim>\<open>APIError\<close> decoded from the body, or the decoder's error when the body cannot be
  decoded into one.
\<close>

theorem failure_status_is_error:
  assumes "sent (call lib T c e request param) = [rq]"
    and "client c rq = Inr res"
    and "StatusCode res < 200 \<or> 399 < StatusCode res"
  shows "response (call lib T c e request param) = zeroValue T \<and>
         ((\<exists>apiErr. Decode APIError_type (Body res) (zeroValue APIError_type) = (apiErr, None) \<and>
              err (call lib T c e request param) = Some (ErrAPI apiErr)) \<or>
          (\<exists>v je. Decode APIError_type (Body res) (zeroValue APIError_type) = (v, Some je) \<and>
              err (call lib T c e request param) = Some (ErrJSON je)))"
proof (cases "Decode APIError_type (Body res) (zeroValue APIError_type)")
  case (Pair v r)
  show ?thesis
  proof (cases r)
    case None
    with Pair assms(3) show ?thesis
      by (auto simp add: call_classified [OF assms(1,2)] classified_def)
  next
    case (Some je)
    with Pair show ?thesis
      by (simp add: call_classified [OF assms(1,2)] classified_def)
  qed
qed

theorem failure_status_is_error_witness:
  "response (call stub_library (pointerTo AppTokenResponse_type)
          (test_client (server 404 (Some (JObj [(''id'', JStr ''image_missing'')]))))
          getBatchEndpoint GetBatchPayload ''abc123'') = None \<and>
   err (call stub_library (pointerTo AppTokenResponse_type)
          (test_client (server 404 (Some (JObj [(''id'', JStr ''image_missing'')]))))
          getBatchEndpoint GetBatchPayload ''abc123'') =
     Some (ErrAPI \<lparr>ID = ''image_missing'', Message = None, Detail = None\<rparr>) \<and>
   response (call stub_library (pointerTo AppTokenResponse_type)
          (test_client (server 503 None)) getBatchEndpoint GetBatchPayload ''abc123'') = None \<and>
   err (call stub_library (pointerTo AppTokenResponse_type)
          (test_client (server 503 None)) getBatchEndpoint GetBatchPayload ''abc123'') =
     Some (ErrJSON SyntaxOrEOF)"
proof -
  let ?body = "Some (JObj [(''id'', JStr ''image_missing'')])"
  let ?res = "\<lparr>StatusCode = 404, Body = ?body\<rparr>"
  let ?out = "call stub_library (pointerTo AppTokenResponse_type)
          (test_client (server 404 ?body)) getBatchEndpoint GetBatchPayload ''abc123''"
  have s: "sent ?out = [wire getBatchEndpoint ''abc123'']"
    by (rule fixture_sent)
  have r: "client (test_client (server 404 ?body)) (wire getBatchEndpoint ''abc123'') = Inr ?res"
    by (rule fixture_answer)
  have st: "StatusCode ?res < 200 \<or> 399 < StatusCode ?res"
    by simp
  let ?res' = "\<lparr>StatusCode = 503, Body = None\<rparr>"
  let ?out' = "call stub_library (pointerTo AppTokenResponse_type)
          (test_client (server 503 None)) getBatchEndpoint GetBatchPayload ''abc123''"
  have s': "sent ?out' = [wire getBatchEndpoint ''abc123'']"
    by (rule fixture_sent)
  have r': "client (test_client (server 503 None)) (wire getBatchEndpoint ''abc123'') = Inr ?res'"
    by (rule fixture_answer)
  have st': "StatusCode ?res' < 200 \<or> 399 < StatusCode ?res'"
    by simp
  have d': "Decode APIError_type None (zeroValue APIError_type) =
      (zeroValue APIError_type, Some SyntaxOrEOF)"
    by (simp add: Decode_def)
  from failure_status_is_error [OF s r st] failure_status_is_error [OF s' r' st']
  show ?thesis by (simp add: Decode_flat_envelope d' zeroValue_pointerTo)
qed

text \<open>
  Claim C5 (the code departs from it). \<^verbatim>\<open>Client.RequestUsage\<close> hands the encoder the
  wrapper \<^verbatim>\<open>usagePayload\<close>, not the \<^verbatim>\<open>RequestUsage\<close> whose fields carry the
  \<^verbatim>\<open>required\<close> directives. With the payload encoder as the specification describes it,
  encoding the wrapper succeeds whatever the request holds, so the call hands a request to
  the HTTP client's \<^verbatim>\<open>Do\<close> even when \<^verbatim>\<open>GroupBy\<close> and \<^verbatim>\<open>Timespan\<close> are empty; the same
  encoder applied to the fields of \<^verbatim>\<open>RequestUsage\<close> itself refuses an empty \<^verbatim>\<open>GroupBy\<close>
  and, after it, an empty \<^verbatim>\<open>Timespan\<close>.
\<close>

theorem RequestUsage_required_not_enforced:
  "(\<exists>frag. encode (usagePayload_fields ser (UsagePayload request)) = Inr frag) \<and>
   (\<exists>rq. sent (RequestUsage (with_encoder lib (usagePayload_fields ser)) T c request) = [rq]) \<and>
   (\<exists>rq. sent (RequestUsage (with_encoder lib (usagePayload_fields ser)) T c
      (Some \<lparr>FromDate = t1, ToDate = t2, GroupBy = [], Timespan = []\<rparr>)) = [rq]) \<and>
   encode (RequestUsage_fields z fmt \<lparr>FromDate = t1, ToDate = t2, GroupBy = [], Timespan = ts\<rparr>) =
     Inl (ErrMissingField ''GroupBy'') \<and>
   encode (RequestUsage_fields z fmt
      \<lparr>FromDate = t1, ToDate = t2, GroupBy = ''usage_type'', Timespan = []\<rparr>) =
     Inl (ErrMissingField ''Timespan'')"
proof -
  have built: "NewRequestWithContext (with_encoder lib (usagePayload_fields ser))
       (method' requestUsageEndpoint)
       (URLString (with_encoder lib (usagePayload_fields ser))
          (JoinPath (with_encoder lib (usagePayload_fields ser)) (baseURL c)
             [name requestUsageEndpoint, []]))
       (UsagePayload rqst) =
     Inr \<lparr>Method = method' requestUsageEndpoint,
          URL = URLString lib (JoinPath lib (baseURL c) [name requestUsageEndpoint, []]),
          Query = [], Header = Map.empty, ReqBody = None\<rparr>" for rqst
    by (simp add: with_encoder_def spec_NewRequestWithContext_def encode_def)
  have sent_one: "\<exists>rq. sent (RequestUsage (with_encoder lib (usagePayload_fields ser)) T c rqst) =
      [rq]" for rqst
    unfolding RequestUsage_def using call_sent_built [OF built, of T rqst] by blast
  show ?thesis
    by (simp add: sent_one encode_usage_missing_GroupBy encode_usage_missing_Timespan)
       (simp add: encode_def)
qed

text \<open>
  Claim C6. With the strokes session enabled, \<^verbatim>\<open>WithExpiration(500)\<close> sets \<^verbatim>\<open>Expires\<close> to
  300; in general \<^verbatim>\<open>WithExpiration\<close> sets \<^verbatim>\<open>Expires\<close> to the requested value clamped into
  [30, 300] when the strokes session is enabled and into [30, 43200] otherwise, and
  leaves the strokes flag as it was. The method only changes the request value; nothing
  is sent.
\<close>

theorem WithExpiration_clamps:
  "(IncludeStrokesSessionID r \<longrightarrow> Expires (WithExpiration r 500) = 300) \<and>
   (IncludeStrokesSessionID r \<longrightarrow>
      sint (Expires (WithExpiration r seconds)) = clamp 30 300 (sint seconds)) \<and>
   (\<not> IncludeStrokesSessionID r \<longrightarrow>
      sint (Expires (WithExpiration r seconds)) = clamp 30 43200 (sint seconds)) \<and>
   IncludeStrokesSessionID (WithExpiration r seconds) = IncludeStrokesSessionID r"
  by (simp add: WithExpiration_def clamp_def word_sless_alt Let_def)

theorem WithExpiration_clamps_witness:
  "IncludeStrokesSessionID (WithStrokesSession NewAppTokenRequest) \<and>
   Expires (WithExpiration (WithStrokesSession NewAppTokenRequest) 500) = 300 \<and>
   sint (Expires (WithExpiration (WithStrokesSession NewAppTokenRequest) 7)) = 30 \<and>
   \<not> IncludeStrokesSessionID NewAppTokenRequest \<and>
   sint (Expires (WithExpiration NewAppTokenRequest 500)) = 500 \<and>
   sint (Expires (WithExpiration NewAppTokenRequest 50000)) = 43200"
  using WithExpiration_clamps [of "WithStrokesSession NewAppTokenRequest" 7]
    WithExpiration_clamps [of NewAppTokenRequest 500]
    WithExpiration_clamps [of NewAppTokenRequest 50000]
  by (simp add: WithStrokesSession_def NewAppTokenRequest_def clamp_def Let_def)

text \<open>
  Claim C7. Each of the nine endpoint descriptors carries the verb and the path of the
  specification's table, and each method of the client facade is the dispatcher at its
  descriptor: submit image, submit PDF, poll conversion status (with the tracking id as
  path parameter), submit batch, fetch batch (with the batch id), submit strokes, search
  results, mint temporary token, fetch usage. The descriptors are package-level values
  that no function of the sources assigns; they are constants here, and neither
  \<^verbatim>\<open>call\<close> nor a facade method returns a descriptor.
\<close>

theorem facade_descriptors:
  "imagesEndpoint = \<lparr>name = ''v3/image'', method' = ''POST''\<rparr> \<and>
   documentsEndpoint = \<lparr>name = ''v3/pdf'', method' = ''POST''\<rparr> \<and>
   conversionStatusEndpoint = \<lparr>name = ''v3/status'', method' = ''GET''\<rparr> \<and>
   batchEndpoint = \<lparr>name = ''v3/batch'', method' = ''POST''\<rparr> \<and>
   getBatchEndpoint = \<lparr>name = ''v3/batch'', method' = ''GET''\<rparr> \<and>
   strokesEndpoint = \<lparr>name = ''v3/strokes'', method' = ''POST''\<rparr> \<and>
   ocrResultsEndpoint = \<lparr>name = ''v3/ocr-results'', method' = ''GET''\<rparr> \<and>
   appTokensEndpoint = \<lparr>name = ''v3/app-tokens'', method' = ''POST''\<rparr> \<and>
   requestUsageEndpoint = \<lparr>name = ''v3/usage'', method' = ''POST''\<rparr> \<and>
   Image lib1 T1 c1 r1 =
     call lib1 T1 c1 \<lparr>name = ''v3/image'', method' = ''POST''\<rparr> (ImageRequestPayload r1) [] \<and>
   Pdf lib2 T2 c2 r2 =
     call lib2 T2 c2 \<lparr>name = ''v3/pdf'', method' = ''POST''\<rparr> (DocumentRequestPayload r2) [] \<and>
   PdfResult lib3 T3 c3 (Some r3) =
     Some (call lib3 T3 c3 \<lparr>name = ''v3/status'', method' = ''GET''\<rparr> None (PDFID r3)) \<and>
   Batch lib4 T4 c4 r4 =
     call lib4 T4 c4 \<lparr>name = ''v3/batch'', method' = ''POST''\<rparr> (PostBatchRequestPayload r4) [] \<and>
   GetBatch lib5 T5 c5 batchID =
     call lib5 T5 c5 \<lparr>name = ''v3/batch'', method' = ''GET''\<rparr> GetBatchPayload batchID \<and>
   RequestStrokes lib6 T6 c6 r6 =
     call lib6 T6 c6 \<lparr>name = ''v3/strokes'', method' = ''POST''\<rparr> (RequestStrokesPayload r6) [] \<and>
   SearchResults lib7 T7 c7 r7 =
     call lib7 T7 c7 \<lparr>name = ''v3/ocr-results'', method' = ''GET''\<rparr> (OcrResultsPayload r7) [] \<and>
   NewClientToken lib8 T8 c8 r8 =
     call lib8 T8 c8 \<lparr>name = ''v3/app-tokens'', method' = ''POST''\<rparr> (AppTokenPayload r8) [] \<and>
   RequestUsage lib9 T9 c9 r9 =
     call lib9 T9 c9 \<lparr>name = ''v3/usage'', method' = ''POST''\<rparr> (UsagePayload r9) []"
  by (simp add: endpoint_defs Image_def Pdf_def PdfResult_def Batch_def GetBatch_def
      RequestStrokes_def SearchResults_def NewClientToken_def RequestUsage_def)

text \<open>
  Claim C8. The string form of an \<^verbatim>\<open>APIError\<close> is the identifier when \<^verbatim>\<open>Message\<close> is
  nil, and the identifier, a colon, a space and the message otherwise.
\<close>

theorem Error_string_form:
  "(Message e = None \<longrightarrow> Error e = String (ID e)) \<and>
   (\<forall>m. Message e = Some m \<longrightarrow> Error e = String (ID e) @ '': '' @ m)"
  by (simp add: Error_def)

theorem Error_string_form_witness:
  "Error \<lparr>ID = ErrImageMissing, Message = None, Detail = None\<rparr> = ''image_missing'' \<and>
   Error \<lparr>ID = ErrImageMissing, Message = Some ''no url'', Detail = None\<rparr> =
     ''image_missing: no url''"
  using Error_string_form [of "\<lparr>ID = ErrImageMissing, Message = None, Detail = None\<rparr>"]
    Error_string_form [of "\<lparr>ID = ErrImageMissing, Message = Some ''no url'', Detail = None\<rparr>"]
  by (simp add: String_def ErrImageMissing_def)

text \<open>
  Claim C9. After any finite sequence of \<^verbatim>\<open>WithStrokesSession\<close> and \<^verbatim>\<open>WithExpiration\<close>
  calls on \<^verbatim>\<open>NewAppTokenRequest()\<close>, \<^verbatim>\<open>Expires\<close> lies in [30, 43200], and in [30, 300]
  whenever the strokes session is enabled.
\<close>

theorem builders_keep_range:
  "30 \<le> sint (Expires (apply_builders NewAppTokenRequest bs)) \<and>
   sint (Expires (apply_builders NewAppTokenRequest bs)) \<le> 43200 \<and>
   (IncludeStrokesSessionID (apply_builders NewAppTokenRequest bs) \<longrightarrow>
      sint (Expires (apply_builders NewAppTokenRequest bs)) \<le> 300)"
  using token_inv_apply_builders [OF token_inv_New, of bs]
  by (simp add: token_inv_def split: if_splits)

theorem builders_keep_range_witness:
  "IncludeStrokesSessionID (apply_builders NewAppTokenRequest
      [CallWithExpiration 500, CallWithStrokesSession, CallWithExpiration 10000]) \<and>
   sint (Expires (apply_builders NewAppTokenRequest
      [CallWithExpiration 500, CallWithStrokesSession, CallWithExpiration 10000])) \<le> 300 \<and>
   30 \<le> sint (Expires (apply_builders NewAppTokenRequest
      [CallWithExpiration 500, CallWithStrokesSession, CallWithExpiration 10000]))"
  using builders_keep_range
    [of "[CallWithExpiration 500, CallWithStrokesSession, CallWithExpiration 10000]"]
  by (simp add: apply_builders_def WithStrokesSession_def WithExpiration_def
      NewAppTokenRequest_def Let_def)

text \<open>
  Claim C10. \<^verbatim>\<open>WithBaseURL\<close> with a string that \<^verbatim>\<open>url.Parse\<close> refuses leaves the base URL
  as it was, and \<^verbatim>\<open>WithBaseURL\<close> never changes another field of the client. An option
  is a function from client to client: it has no error result.
\<close>

theorem WithBaseURL_frame:
  "(\<forall>e. Parse lib s = Inl e \<longrightarrow> baseURL (WithBaseURL lib s c) = baseURL c) \<and>
   apiKey (WithBaseURL lib s c) = apiKey c \<and>
   appID (WithBaseURL lib s c) = appID c \<and>
   client (WithBaseURL lib s c) = client c \<and>
   logger (WithBaseURL lib s c) = logger c \<and>
   SetCommonHeaders (WithBaseURL lib s c) = SetCommonHeaders c"
  by (simp add: WithBaseURL_def split: sum.splits)

theorem WithBaseURL_frame_witness:
  "Parse stub_url (''https://example.test/'' @ [CHR 0x7F]) =
     Inl (ErrURL ''invalid control character in URL'') \<and>
   baseURL (WithBaseURL stub_url (''https://example.test/'' @ [CHR 0x7F])
      (test_client (server 200 None))) = ''https://api.mathpix.com''"
  using WithBaseURL_frame [of stub_url "''https://example.test/'' @ [CHR 0x7F]"
      "test_client (server 200 None)"]
  by (simp add: stub_url_def stringContainsCTLByte_def test_client_def)

end
